theory Spec2Isabelle
  imports Main "HOL-Library.Word" "HOL-Library.Sublist"
begin

section \<open>The to-do list manager of \<^verbatim>\<open>src/App.tsx\<close>\<close>

subsection \<open>Values of the program\<close>

text \<open>
  A JavaScript string is a sequence of UTF-16 code units. \<^verbatim>\<open>String.prototype.trim\<close>
  removes the code units of ECMAScript's WhiteSpace and LineTerminator productions
  from both ends.
\<close>

type_synonym js_string = "16 word list"

text \<open>An ASCII literal as code units.\<close>

definition str :: "string \<Rightarrow> js_string" where
  "str s = map of_char s"

definition isWhiteSpace :: "16 word \<Rightarrow> bool" where
  "isWhiteSpace c \<longleftrightarrow>
     c \<in> set [0x0009, 0x000A, 0x000B, 0x000C, 0x000D, 0x0020, 0x00A0, 0x1680,
              0x2000, 0x2001, 0x2002, 0x2003, 0x2004, 0x2005, 0x2006, 0x2007,
              0x2008, 0x2009, 0x200A, 0x2028, 0x2029, 0x202F, 0x205F, 0x3000, 0xFEFF]"

definition trim :: "js_string \<Rightarrow> js_string" where
  "trim s = rev (dropWhile isWhiteSpace (rev (dropWhile isWhiteSpace s)))"

text \<open>
  The field \<^verbatim>\<open>due?: string | null\<close> of a task: absent, \<^verbatim>\<open>null\<close>, or a string.
  \<open>truthy\<close> is JavaScript's \<^verbatim>\<open>ToBoolean\<close> on such a value: only a non-empty
  string is true.
\<close>

datatype due_value = DueUndefined | DueNull | DueString js_string

fun truthy :: "due_value \<Rightarrow> bool" where
  "truthy (DueString s) = (s \<noteq> [])"
| "truthy DueUndefined = False"
| "truthy DueNull = False"

text \<open>
  \<^verbatim>\<open>interface Todo { id: string; text: string; completed: boolean; due?: string | null }\<close>,
  the fields prefixed with \<open>todo_\<close>.
\<close>

record Todo =
  todo_id :: js_string
  todo_text :: js_string
  todo_completed :: bool
  todo_due :: due_value

text \<open>\<^verbatim>\<open>type Filter = "all" | "active" | "completed" | "soon"\<close>\<close>

datatype Filter = FilterAll | FilterActive | FilterCompleted | FilterSoon

subsection \<open>The due-status classifier\<close>

text \<open>
  \<^verbatim>\<open>getDueStatus\<close> returns one of the strings \<^verbatim>\<open>"overdue"\<close>, \<^verbatim>\<open>"soon"\<close>, or
  \<^verbatim>\<open>null\<close>; the result type is \<open>due_status option\<close> with \<open>None\<close> for \<^verbatim>\<open>null\<close>.

  The two reads of the environment are parameters: \<open>now\<close> is the time value of
  \<^verbatim>\<open>new Date()\<close> in milliseconds, and \<open>parseDate s\<close> is the time value of
  \<^verbatim>\<open>new Date(s)\<close>, \<open>None\<close> for an Invalid Date, whose time value is \<^verbatim>\<open>NaN\<close>.
  Every comparison with \<^verbatim>\<open>NaN\<close> is false, so both tests fail on an Invalid Date.
  Time values are integers of magnitude at most 8.64e15, so the subtraction and the
  comparisons of the source are those of \<open>int\<close>.
\<close>

datatype due_status = Overdue | Soon

definition getDueStatus :: "(js_string \<Rightarrow> int option) \<Rightarrow> int \<Rightarrow> due_value \<Rightarrow> due_status option" where
  "getDueStatus parseDate now dateString =
     (if \<not> truthy dateString then None
      else case dateString of
        DueString s \<Rightarrow>
          (case parseDate s of
             None \<Rightarrow> None
           | Some dueDate \<Rightarrow>
               if now > dueDate then Some Overdue
               else if dueDate - now < 36 * 60 * 60 * 1000 then Some Soon
               else None)
      | _ \<Rightarrow> None)"

subsection \<open>The state of the component\<close>

text \<open>
  The \<^verbatim>\<open>useState\<close> cells of \<^verbatim>\<open>App\<close>. The cell \<^verbatim>\<open>filter\<close> is named
  \<open>filter_sel\<close> here.
\<close>

record AppState =
  todos :: "Todo list"
  input :: js_string
  editingId :: "js_string option"
  editingText :: js_string
  editingDue :: js_string
  due :: js_string
  filter_sel :: Filter

text \<open>
  \<^verbatim>\<open>Date.now().toString()\<close>: the decimal numeral of an integral Number, most
  significant digit first, with a leading \<^verbatim>\<open>-\<close> (code unit 0x2D) below zero.
\<close>

fun digits :: "nat \<Rightarrow> js_string" where
  "digits n = (if n < 10 then [0x30 + of_nat n] else digits (n div 10) @ [0x30 + of_nat (n mod 10)])"

declare digits.simps [simp del]

definition toString :: "int \<Rightarrow> js_string" where
  "toString n = (if n < 0 then 0x2D # digits (nat (- n)) else digits (nat n))"

subsection \<open>The handlers\<close>

text \<open>
  Each handler is a function from the state it closes over to the state after its
  \<^verbatim>\<open>set...\<close> calls. \<^verbatim>\<open>handleAddTodo\<close> reads the clock: \<open>now\<close> is the value of
  \<^verbatim>\<open>Date.now()\<close>.
\<close>

definition handleAddTodo :: "int \<Rightarrow> AppState \<Rightarrow> AppState" where
  "handleAddTodo now st =
     (if trim (input st) = [] then st
      else st\<lparr>todos := todos st @
                 [\<lparr>todo_id = toString now,
                   todo_text = trim (input st),
                   todo_completed = False,
                   todo_due = (if due st \<noteq> [] then DueString (due st) else DueNull)\<rparr>],
               input := [],
               due := []\<rparr>)"

definition handleDelete :: "js_string \<Rightarrow> AppState \<Rightarrow> AppState" where
  "handleDelete i st = st\<lparr>todos := filter (\<lambda>todo. todo_id todo \<noteq> i) (todos st)\<rparr>"

definition handleToggle :: "js_string \<Rightarrow> AppState \<Rightarrow> AppState" where
  "handleToggle i st =
     st\<lparr>todos := map (\<lambda>todo. if todo_id todo = i
                                then todo\<lparr>todo_completed := \<not> todo_completed todo\<rparr>
                                else todo) (todos st)\<rparr>"

text \<open>\<^verbatim>\<open>dueDate || ""\<close>\<close>

fun or_empty :: "due_value \<Rightarrow> js_string" where
  "or_empty (DueString s) = s"
| "or_empty DueUndefined = []"
| "or_empty DueNull = []"

definition handleEdit :: "js_string \<Rightarrow> js_string \<Rightarrow> due_value \<Rightarrow> AppState \<Rightarrow> AppState" where
  "handleEdit i txt dueDate st =
     st\<lparr>editingId := Some i, editingText := txt, editingDue := or_empty dueDate\<rparr>"

definition handleEditSave :: "js_string \<Rightarrow> AppState \<Rightarrow> AppState" where
  "handleEditSave i st =
     st\<lparr>todos := map (\<lambda>todo. if todo_id todo = i
                                then todo\<lparr>todo_text := editingText st,
                                          todo_due := (if editingDue st \<noteq> []
                                                       then DueString (editingDue st)
                                                       else DueNull)\<rparr>
                                else todo) (todos st),
        editingId := None,
        editingText := [],
        editingDue := []\<rparr>"

text \<open>The key names \<^verbatim>\<open>"Enter"\<close> and \<^verbatim>\<open>"Escape"\<close>.\<close>

definition key_Enter :: js_string where
  "key_Enter = str ''Enter''"

definition key_Escape :: js_string where
  "key_Escape = str ''Escape''"

definition handleKeyDown :: "js_string \<Rightarrow> js_string \<Rightarrow> AppState \<Rightarrow> AppState" where
  "handleKeyDown key i st =
     (let st1 = (if key = key_Enter then handleEditSave i st else st)
      in if key = key_Escape
         then st1\<lparr>editingId := None, editingText := [], editingDue := []\<rparr>
         else st1)"

subsection \<open>Filtering and the counts\<close>

text \<open>
  \<^verbatim>\<open>Array.prototype.filter\<close> is \<^const>\<open>filter\<close>. One render is taken at one reading
  \<open>now\<close> of the clock.
\<close>

definition filteredTodos :: "(js_string \<Rightarrow> int option) \<Rightarrow> int \<Rightarrow> AppState \<Rightarrow> Todo list" where
  "filteredTodos parseDate now st =
     (case filter_sel st of
        FilterActive \<Rightarrow> filter (\<lambda>t. \<not> todo_completed t) (todos st)
      | FilterCompleted \<Rightarrow> filter (\<lambda>t. todo_completed t) (todos st)
      | FilterSoon \<Rightarrow>
          filter (\<lambda>t. \<not> todo_completed t \<and> getDueStatus parseDate now (todo_due t) = Some Soon)
            (todos st)
      | FilterAll \<Rightarrow> todos st)"

definition activeCount :: "AppState \<Rightarrow> nat" where
  "activeCount st = length (filter (\<lambda>t. \<not> todo_completed t) (todos st))"

definition completedCount :: "AppState \<Rightarrow> nat" where
  "completedCount st = length (filter (\<lambda>t. todo_completed t) (todos st))"

definition soonCount :: "(js_string \<Rightarrow> int option) \<Rightarrow> int \<Rightarrow> AppState \<Rightarrow> nat" where
  "soonCount parseDate now st =
     length (filter (\<lambda>t. \<not> todo_completed t \<and> getDueStatus parseDate now (todo_due t) = Some Soon)
               (todos st))"

text \<open>
  The \<^verbatim>\<open>count\<close> property of the four \<^verbatim>\<open>FilterButton\<close> elements of the render,
  by the \<^verbatim>\<open>value\<close> property of the button.
\<close>

fun filterButtonCount :: "(js_string \<Rightarrow> int option) \<Rightarrow> int \<Rightarrow> AppState \<Rightarrow> Filter \<Rightarrow> nat" where
  "filterButtonCount parseDate now st FilterAll = length (todos st)"
| "filterButtonCount parseDate now st FilterActive = activeCount st"
| "filterButtonCount parseDate now st FilterCompleted = completedCount st"
| "filterButtonCount parseDate now st FilterSoon = soonCount parseDate now st"

subsection \<open>Runs of the component\<close>

text \<open>
  The events of the user interface: typing into the two inputs of the form
  (\<^verbatim>\<open>setInput\<close>, \<^verbatim>\<open>setDue\<close>), submitting the form at a reading of the clock,
  clicking the checkbox or the delete button of a task, double-clicking its text,
  typing into the two inputs of the task being edited, leaving them
  (\<^verbatim>\<open>onBlur\<close>), pressing a key in them, and clicking a filter button.
\<close>

datatype event =
    SetInput js_string
  | SetDue js_string
  | Submit int
  | Toggle js_string
  | Delete js_string
  | BeginEdit js_string js_string due_value
  | SetEditingText js_string
  | SetEditingDue js_string
  | Blur js_string
  | KeyDown js_string js_string
  | SetFilter Filter

fun step :: "event \<Rightarrow> AppState \<Rightarrow> AppState" where
  "step (SetInput s) st = st\<lparr>input := s\<rparr>"
| "step (SetDue s) st = st\<lparr>due := s\<rparr>"
| "step (Submit now) st = handleAddTodo now st"
| "step (Toggle i) st = handleToggle i st"
| "step (Delete i) st = handleDelete i st"
| "step (BeginEdit i txt d) st = handleEdit i txt d st"
| "step (SetEditingText s) st = st\<lparr>editingText := s\<rparr>"
| "step (SetEditingDue s) st = st\<lparr>editingDue := s\<rparr>"
| "step (Blur i) st = handleEditSave i st"
| "step (KeyDown key i) st = handleKeyDown key i st"
| "step (SetFilter f) st = st\<lparr>filter_sel := f\<rparr>"

fun run :: "AppState \<Rightarrow> event list \<Rightarrow> AppState" where
  "run st [] = st"
| "run st (e # es) = run (step e st) es"

text \<open>The initial values of the \<^verbatim>\<open>useState\<close> cells, over the stored collection.\<close>

definition initState :: "Todo list \<Rightarrow> AppState" where
  "initState ts =
     \<lparr>todos = ts, input = [], editingId = None, editingText = [], editingDue = [],
      due = [], filter_sel = FilterAll\<rparr>"

text \<open>
  The readings of the clock at which a run appends a task: those of the
  submissions that \<^verbatim>\<open>handleAddTodo\<close> does not reject.
\<close>

fun add_times :: "AppState \<Rightarrow> event list \<Rightarrow> int list" where
  "add_times st [] = []"
| "add_times st (Submit now # es) =
     (if trim (input st) = [] then [] else [now]) @ add_times (step (Submit now) st) es"
| "add_times st (e # es) = add_times (step e st) es"

subsection \<open>The specification's vocabulary\<close>

text \<open>
  The classifier as the specification words it, with four states, over the time
  value of the due timestamp (\<open>None\<close> when there is no due date).
\<close>

datatype spec_status = SpecNone | SpecOverdue | SpecSoon | SpecNormal

fun spec_classify :: "int option \<Rightarrow> int \<Rightarrow> spec_status" where
  "spec_classify None now = SpecNone"
| "spec_classify (Some d) now =
     (if now > d then SpecOverdue
      else if d - now < 36 * 60 * 60 * 1000 then SpecSoon
      else SpecNormal)"

text \<open>The predicate of each filter selector, as the specification lists them.\<close>

fun spec_selects :: "(js_string \<Rightarrow> int option) \<Rightarrow> int \<Rightarrow> Filter \<Rightarrow> Todo \<Rightarrow> bool" where
  "spec_selects parseDate now FilterAll t = True"
| "spec_selects parseDate now FilterActive t = (todo_completed t = False)"
| "spec_selects parseDate now FilterCompleted t = (todo_completed t = True)"
| "spec_selects parseDate now FilterSoon t =
     (todo_completed t = False \<and> getDueStatus parseDate now (todo_due t) = Some Soon)"

subsection \<open>Sample values\<close>

text \<open>
  Strings as a \<^verbatim>\<open>datetime-local\<close> input produces them, and a reading of them as
  time values (local time taken as UTC).
\<close>

definition due_1970_01_02 :: js_string where
  "due_1970_01_02 = str ''1970-01-02T12:00''"

definition due_1970_01_03 :: js_string where
  "due_1970_01_03 = str ''1970-01-03T00:00''"

definition sampleDates :: "js_string \<Rightarrow> int option" where
  "sampleDates = [due_1970_01_02 \<mapsto> 129600000, due_1970_01_03 \<mapsto> 172800000]"

text \<open>The value of a decimal numeral.\<close>

definition decimal_value :: "js_string \<Rightarrow> nat" where
  "decimal_value s = foldl (\<lambda>a c. 10 * a + unat (c - 0x30)) 0 s"

subsection \<open>The persisted collection\<close>

text \<open>
  The collection is kept in \<^verbatim>\<open>localStorage\<close> as the text that \<^verbatim>\<open>JSON.stringify\<close>
  produces and is read back with \<^verbatim>\<open>JSON.parse\<close>. Both are functions of the
  runtime; they are written here after their definition in ECMAScript
  (\<^verbatim>\<open>QuoteJSONString\<close>, \<^verbatim>\<open>SerializeJSONObject\<close>, \<^verbatim>\<open>SerializeJSONArray\<close>, and the JSON
  grammar), on code units.
\<close>

text \<open>
  \<^verbatim>\<open>UnicodeEscape\<close>: \<^verbatim>\<open>\u\<close> and four lowercase hexadecimal digits.
\<close>

definition hex_digit :: "nat \<Rightarrow> 16 word" where
  "hex_digit n = (if n < 10 then 0x30 + of_nat n else 0x61 + of_nat (n - 10))"

definition UnicodeEscape :: "16 word \<Rightarrow> js_string" where
  "UnicodeEscape c =
     (let n = unat c
      in [0x5C, 0x75, hex_digit (n div 4096), hex_digit (n div 256 mod 16),
          hex_digit (n div 16 mod 16), hex_digit (n mod 16)])"

definition isLeadingSurrogate :: "16 word \<Rightarrow> bool" where
  "isLeadingSurrogate c \<longleftrightarrow> 0xD800 \<le> c \<and> c \<le> 0xDBFF"

definition isTrailingSurrogate :: "16 word \<Rightarrow> bool" where
  "isTrailingSurrogate c \<longleftrightarrow> 0xDC00 \<le> c \<and> c \<le> 0xDFFF"

text \<open>
  \<^verbatim>\<open>QuoteJSONString\<close> goes through the code points of the string. A code point with
  a short escape gets it, another one below 0x20 and a surrogate that is not part of a
  pair get a \<^verbatim>\<open>UnicodeEscape\<close>, and every other code point is copied; a leading
  surrogate followed by a trailing one is one code point, copied as its two code units.
\<close>

definition quote_unit :: "16 word \<Rightarrow> js_string" where
  "quote_unit c =
     (if c = 0x08 then [0x5C, 0x62]
      else if c = 0x09 then [0x5C, 0x74]
      else if c = 0x0A then [0x5C, 0x6E]
      else if c = 0x0C then [0x5C, 0x66]
      else if c = 0x0D then [0x5C, 0x72]
      else if c = 0x22 then [0x5C, 0x22]
      else if c = 0x5C then [0x5C, 0x5C]
      else if c < 0x20 then UnicodeEscape c
      else [c])"

fun quote_units :: "js_string \<Rightarrow> js_string" where
  "quote_units [] = []"
| "quote_units [c] =
     (if isLeadingSurrogate c \<or> isTrailingSurrogate c then UnicodeEscape c else quote_unit c)"
| "quote_units (c # d # cs) =
     (if isLeadingSurrogate c
      then (if isTrailingSurrogate d then c # d # quote_units cs
            else UnicodeEscape c @ quote_units (d # cs))
      else if isTrailingSurrogate c then UnicodeEscape c @ quote_units (d # cs)
      else quote_unit c @ quote_units (d # cs))"

definition QuoteJSONString :: "js_string \<Rightarrow> js_string" where
  "QuoteJSONString s = 0x22 # quote_units s @ [0x22]"

text \<open>
  \<^verbatim>\<open>JSON.stringify(todos)\<close> with no indentation: the properties of a task in the
  order in which \<^verbatim>\<open>handleAddTodo\<close> creates them (the spreads of \<^verbatim>\<open>handleToggle\<close> and
  \<^verbatim>\<open>handleEditSave\<close> keep it), a property whose value is \<^verbatim>\<open>undefined\<close> left out.
\<close>

definition SerializeTodo :: "Todo \<Rightarrow> js_string" where
  "SerializeTodo t =
     [0x7B] @ QuoteJSONString (str ''id'') @ [0x3A] @ QuoteJSONString (todo_id t) @
     [0x2C] @ QuoteJSONString (str ''text'') @ [0x3A] @ QuoteJSONString (todo_text t) @
     [0x2C] @ QuoteJSONString (str ''completed'') @ [0x3A] @
       (if todo_completed t then str ''true'' else str ''false'') @
     (case todo_due t of
        DueUndefined \<Rightarrow> []
      | DueNull \<Rightarrow> [0x2C] @ QuoteJSONString (str ''due'') @ [0x3A] @ str ''null''
      | DueString s \<Rightarrow> [0x2C] @ QuoteJSONString (str ''due'') @ [0x3A] @ QuoteJSONString s) @
     [0x7D]"

fun join_comma :: "js_string list \<Rightarrow> js_string" where
  "join_comma [] = []"
| "join_comma [x] = x"
| "join_comma (x # y # ys) = x @ [0x2C] @ join_comma (y # ys)"

definition JSON_stringify :: "Todo list \<Rightarrow> js_string" where
  "JSON_stringify ts = [0x5B] @ join_comma (map SerializeTodo ts) @ [0x5D]"

text \<open>
  The values \<^verbatim>\<open>JSON.parse\<close> returns. A number keeps the text of its numeral, and
  an object keeps its members in the order of the text; reading a property takes the
  last member of that name.
\<close>

datatype json =
    JNull
  | JBool bool
  | JNumber js_string
  | JString js_string
  | JArray "json list"
  | JObject "(js_string \<times> json) list"

text \<open>
  The tokens of the JSON grammar. \<open>lex_string\<close> reads a string after its opening
  quote and returns its value and the text after the closing quote; \<open>lex_number\<close>
  reads a numeral.
\<close>

datatype token =
    TLBracket | TRBracket | TLBrace | TRBrace | TColon | TComma
  | TString js_string | TNumber js_string | TTrue | TFalse | TNull

definition hex_value :: "16 word \<Rightarrow> nat option" where
  "hex_value c =
     (if 0x30 \<le> c \<and> c \<le> 0x39 then Some (unat c - 48)
      else if 0x61 \<le> c \<and> c \<le> 0x66 then Some (unat c - 87)
      else if 0x41 \<le> c \<and> c \<le> 0x46 then Some (unat c - 55)
      else None)"

definition unescape :: "16 word \<Rightarrow> 16 word option" where
  "unescape e =
     (if e = 0x22 then Some 0x22
      else if e = 0x5C then Some 0x5C
      else if e = 0x2F then Some 0x2F
      else if e = 0x62 then Some 0x08
      else if e = 0x66 then Some 0x0C
      else if e = 0x6E then Some 0x0A
      else if e = 0x72 then Some 0x0D
      else if e = 0x74 then Some 0x09
      else None)"

definition hex4 :: "16 word \<Rightarrow> 16 word \<Rightarrow> 16 word \<Rightarrow> 16 word \<Rightarrow> 16 word option" where
  "hex4 h1 h2 h3 h4 =
     (case (hex_value h1, hex_value h2, hex_value h3, hex_value h4) of
        (Some a, Some b, Some c, Some d) \<Rightarrow> Some (of_nat (4096 * a + 256 * b + 16 * c + d))
      | _ \<Rightarrow> None)"

definition prepend :: "16 word \<Rightarrow> (js_string \<times> js_string) option \<Rightarrow> (js_string \<times> js_string) option" where
  "prepend u r = map_option (\<lambda>(s, rest). (u # s, rest)) r"

fun lex_string :: "js_string \<Rightarrow> (js_string \<times> js_string) option" where
  "lex_string [] = None"
| "lex_string (c # cs) =
     (if c = 0x22 then Some ([], cs)
      else if c = 0x5C then
        (case cs of
           [] \<Rightarrow> None
         | e # es \<Rightarrow>
             if e = 0x75 then
               (case es of
                  h1 # h2 # h3 # h4 # rest \<Rightarrow>
                    (case hex4 h1 h2 h3 h4 of
                       None \<Rightarrow> None
                     | Some u \<Rightarrow> prepend u (lex_string rest))
                | _ \<Rightarrow> None)
             else (case unescape e of
                     None \<Rightarrow> None
                   | Some u \<Rightarrow> prepend u (lex_string es)))
      else if c < 0x20 then None
      else prepend c (lex_string cs))"


definition isDigit :: "16 word \<Rightarrow> bool" where
  "isDigit c \<longleftrightarrow> 0x30 \<le> c \<and> c \<le> 0x39"

definition lex_sign :: "16 word list \<Rightarrow> js_string \<Rightarrow> js_string \<times> js_string" where
  "lex_sign signs cs =
     (case cs of
        [] \<Rightarrow> ([], cs)
      | c # r \<Rightarrow> if c \<in> set signs then ([c], r) else ([], cs))"

definition lex_digits :: "js_string \<Rightarrow> (js_string \<times> js_string) option" where
  "lex_digits cs =
     (if takeWhile isDigit cs = [] then None
      else Some (takeWhile isDigit cs, dropWhile isDigit cs))"

definition lex_fraction :: "js_string \<Rightarrow> (js_string \<times> js_string) option" where
  "lex_fraction cs =
     (case cs of
        [] \<Rightarrow> Some ([], cs)
      | c # r \<Rightarrow>
          if c = 0x2E
          then (case lex_digits r of None \<Rightarrow> None | Some (ds, rest) \<Rightarrow> Some (c # ds, rest))
          else Some ([], cs))"

definition lex_exponent :: "js_string \<Rightarrow> (js_string \<times> js_string) option" where
  "lex_exponent cs =
     (case cs of
        [] \<Rightarrow> Some ([], cs)
      | c # r \<Rightarrow>
          if c = 0x65 \<or> c = 0x45
          then (case lex_sign [0x2B, 0x2D] r of
                  (sg, r') \<Rightarrow>
                    (case lex_digits r' of
                       None \<Rightarrow> None
                     | Some (ds, rest) \<Rightarrow> Some (c # sg @ ds, rest)))
          else Some ([], cs))"

definition lex_number :: "js_string \<Rightarrow> (js_string \<times> js_string) option" where
  "lex_number cs =
     (case lex_sign [0x2D] cs of
        (sg, r0) \<Rightarrow>
          (case lex_digits r0 of
             None \<Rightarrow> None
           | Some (ip, r1) \<Rightarrow>
               if hd ip = 0x30 \<and> tl ip \<noteq> [] then None
               else (case lex_fraction r1 of
                       None \<Rightarrow> None
                     | Some (fp, r2) \<Rightarrow>
                         (case lex_exponent r2 of
                            None \<Rightarrow> None
                          | Some (ep, r3) \<Rightarrow> Some (sg @ ip @ fp @ ep, r3)))))"

definition lex_word :: "js_string \<Rightarrow> js_string \<Rightarrow> js_string option" where
  "lex_word w cs = (if take (length w) cs = w then Some (drop (length w) cs) else None)"

function lex :: "js_string \<Rightarrow> token list option" where
  "lex [] = Some []"
| "lex (c # cs) =
     (if c = 0x09 \<or> c = 0x0A \<or> c = 0x0D \<or> c = 0x20 then lex cs
      else if c = 0x5B then map_option (Cons TLBracket) (lex cs)
      else if c = 0x5D then map_option (Cons TRBracket) (lex cs)
      else if c = 0x7B then map_option (Cons TLBrace) (lex cs)
      else if c = 0x7D then map_option (Cons TRBrace) (lex cs)
      else if c = 0x3A then map_option (Cons TColon) (lex cs)
      else if c = 0x2C then map_option (Cons TComma) (lex cs)
      else if c = 0x22 then
        (case lex_string cs of
           None \<Rightarrow> None
         | Some (s, rest) \<Rightarrow> map_option (Cons (TString s)) (lex rest))
      else if c = 0x74 then
        (case lex_word (str ''rue'') cs of
           None \<Rightarrow> None
         | Some rest \<Rightarrow> map_option (Cons TTrue) (lex rest))
      else if c = 0x66 then
        (case lex_word (str ''alse'') cs of
           None \<Rightarrow> None
         | Some rest \<Rightarrow> map_option (Cons TFalse) (lex rest))
      else if c = 0x6E then
        (case lex_word (str ''ull'') cs of
           None \<Rightarrow> None
         | Some rest \<Rightarrow> map_option (Cons TNull) (lex rest))
      else
        (case lex_number (c # cs) of
           None \<Rightarrow> None
         | Some (n, rest) \<Rightarrow> map_option (Cons (TNumber n)) (lex rest)))"
  by pat_completeness auto
termination
proof -
  have lex_string_length: "length rest < Suc (length cs)"
    if "lex_string cs = Some (s, rest)" for cs s rest
    using that
  proof (induction cs arbitrary: s rest rule: lex_string.induct)
    case 1
    then show ?case
      by simp
  next
    case (2 c cs)
    then show ?case
      by (auto simp add: prepend_def less_Suc_eq_le split: if_splits list.splits option.splits)
         fastforce+
  qed
  have lex_sign_length: "length rest \<le> length cs"
    if "lex_sign signs cs = (sg, rest)" for signs cs sg rest
    using that by (auto simp add: lex_sign_def split: list.splits if_splits)
  have lex_digits_length: "length rest < length cs"
    if "lex_digits cs = Some (ds, rest)" for cs ds rest
  proof -
    from that have "takeWhile isDigit cs \<noteq> []" and r: "rest = dropWhile isDigit cs"
      by (auto simp add: lex_digits_def split: if_splits)
    then have "0 < length (takeWhile isDigit cs)"
      by simp
    moreover have "length (takeWhile isDigit cs) + length (dropWhile isDigit cs) = length cs"
      by (metis length_append takeWhile_dropWhile_id)
    ultimately show ?thesis
      unfolding r by linarith
  qed
  have lex_fraction_length: "length rest \<le> length cs"
    if "lex_fraction cs = Some (fp, rest)" for cs fp rest
    using that
    by (auto simp add: lex_fraction_def split: list.splits if_splits option.splits
        dest!: lex_digits_length)
  have lex_exponent_length: "length rest \<le> length cs"
    if "lex_exponent cs = Some (ep, rest)" for cs ep rest
    using that
    by (auto simp add: lex_exponent_def split: list.splits if_splits option.splits prod.splits
        dest!: lex_digits_length lex_sign_length)
  have lex_number_length: "length rest < length cs"
    if "lex_number cs = Some (n, rest)" for cs n rest
    using that
    by (auto simp add: lex_number_def split: list.splits if_splits option.splits prod.splits
        dest!: lex_digits_length lex_sign_length lex_fraction_length lex_exponent_length)
  have lex_word_length: "length rest \<le> length cs"
    if "lex_word w cs = Some rest" for w cs rest
    using that by (auto simp add: lex_word_def split: if_splits)
  show ?thesis
  proof (relation "measure length")
    show "wf (measure length)"
      by simp
  qed (auto simp add: less_Suc_eq_le dest: lex_string_length lex_word_length lex_number_length)
qed

declare lex.simps [simp del]

text \<open>
  The parser reads the tokens one at a time, with a stack of the arrays and objects
  that are open and the kind of token the grammar allows next.
\<close>

datatype frame = InArray "json list" | InObject "(js_string \<times> json) list" "js_string option"

datatype expect = Value | ValueOrClose | Key | KeyOrClose | Colon | CommaOrClose

datatype pstate = Parsing "frame list" expect | Finished json

fun deliver :: "json \<Rightarrow> frame list \<Rightarrow> pstate option" where
  "deliver v [] = Some (Finished v)"
| "deliver v (InArray vs # st) = Some (Parsing (InArray (vs @ [v]) # st) CommaOrClose)"
| "deliver v (InObject kvs (Some k) # st) =
     Some (Parsing (InObject (kvs @ [(k, v)]) None # st) CommaOrClose)"
| "deliver v (InObject kvs None # st) = None"

fun expects_value :: "expect \<Rightarrow> bool" where
  "expects_value Value = True"
| "expects_value ValueOrClose = True"
| "expects_value _ = False"

fun parse_step :: "pstate \<Rightarrow> token \<Rightarrow> pstate option" where
  "parse_step (Finished v) tok = None"
| "parse_step (Parsing st e) (TString s) =
     (if expects_value e then deliver (JString s) st
      else if e = Key \<or> e = KeyOrClose then
        (case st of
           InObject kvs None # st' \<Rightarrow> Some (Parsing (InObject kvs (Some s) # st') Colon)
         | _ \<Rightarrow> None)
      else None)"
| "parse_step (Parsing st e) (TNumber n) = (if expects_value e then deliver (JNumber n) st else None)"
| "parse_step (Parsing st e) TTrue = (if expects_value e then deliver (JBool True) st else None)"
| "parse_step (Parsing st e) TFalse = (if expects_value e then deliver (JBool False) st else None)"
| "parse_step (Parsing st e) TNull = (if expects_value e then deliver JNull st else None)"
| "parse_step (Parsing st e) TLBracket =
     (if expects_value e then Some (Parsing (InArray [] # st) ValueOrClose) else None)"
| "parse_step (Parsing st e) TLBrace =
     (if expects_value e then Some (Parsing (InObject [] None # st) KeyOrClose) else None)"
| "parse_step (Parsing st e) TRBracket =
     (if e = ValueOrClose \<or> e = CommaOrClose then
        (case st of InArray vs # st' \<Rightarrow> deliver (JArray vs) st' | _ \<Rightarrow> None)
      else None)"
| "parse_step (Parsing st e) TRBrace =
     (if e = KeyOrClose \<or> e = CommaOrClose then
        (case st of InObject kvs None # st' \<Rightarrow> deliver (JObject kvs) st' | _ \<Rightarrow> None)
      else None)"
| "parse_step (Parsing st e) TColon = (if e = Colon then Some (Parsing st Value) else None)"
| "parse_step (Parsing st e) TComma =
     (if e = CommaOrClose then
        (case st of
           InArray vs # st' \<Rightarrow> Some (Parsing st Value)
         | InObject kvs k # st' \<Rightarrow> Some (Parsing st Key)
         | [] \<Rightarrow> None)
      else None)"

fun parse_tokens :: "pstate \<Rightarrow> token list \<Rightarrow> pstate option" where
  "parse_tokens ps [] = Some ps"
| "parse_tokens ps (t # ts) =
     (case parse_step ps t of None \<Rightarrow> None | Some ps' \<Rightarrow> parse_tokens ps' ts)"

definition JSON_parse :: "js_string \<Rightarrow> json option" where
  "JSON_parse txt =
     (case lex txt of
        None \<Rightarrow> None
      | Some toks \<Rightarrow>
          (case parse_tokens (Parsing [] Value) toks of
             Some (Finished v) \<Rightarrow> Some v
           | _ \<Rightarrow> None))"


text \<open>
  \<^verbatim>\<open>JSON.parse(fromStorage) as Todo[]\<close>. The cast checks nothing at run time;
  \<open>asTodos\<close> reads the parsed value at that type and is \<open>None\<close> where the value is
  not of it.
\<close>

definition property :: "js_string \<Rightarrow> (js_string \<times> json) list \<Rightarrow> json option" where
  "property k kvs = map_of (rev kvs) k"

fun asDue :: "json option \<Rightarrow> due_value option" where
  "asDue None = Some DueUndefined"
| "asDue (Some JNull) = Some DueNull"
| "asDue (Some (JString s)) = Some (DueString s)"
| "asDue (Some _) = None"

fun asString :: "json option \<Rightarrow> js_string option" where
  "asString (Some (JString s)) = Some s"
| "asString _ = None"

fun asBoolean :: "json option \<Rightarrow> bool option" where
  "asBoolean (Some (JBool b)) = Some b"
| "asBoolean _ = None"

fun asTodo :: "json \<Rightarrow> Todo option" where
  "asTodo (JObject kvs) =
     (case asString (property (str ''id'') kvs) of
        None \<Rightarrow> None
      | Some i \<Rightarrow>
          (case asString (property (str ''text'') kvs) of
             None \<Rightarrow> None
           | Some t \<Rightarrow>
               (case asBoolean (property (str ''completed'') kvs) of
                  None \<Rightarrow> None
                | Some b \<Rightarrow>
                    (case asDue (property (str ''due'') kvs) of
                       None \<Rightarrow> None
                     | Some d \<Rightarrow>
                         Some \<lparr>todo_id = i, todo_text = t, todo_completed = b, todo_due = d\<rparr>))))"
| "asTodo _ = None"

fun asTodos :: "json \<Rightarrow> Todo list option" where
  "asTodos (JArray vs) = those (map asTodo vs)"
| "asTodos _ = None"

text \<open>
  \<^verbatim>\<open>localStorage\<close> maps keys to strings. \<^verbatim>\<open>getInitialTodos\<close> returns the
  collection, or the error of \<^verbatim>\<open>JSON.parse\<close>; \<open>NotTodos\<close> is a stored value that is
  not a \<^verbatim>\<open>Todo[]\<close>. \<open>persistTodos\<close> is the effect that runs after each change of
  \<^verbatim>\<open>todos\<close>.
\<close>

type_synonym storage = "js_string \<rightharpoonup> js_string"

definition STORAGE_KEY :: js_string where
  "STORAGE_KEY = str ''immersive-todo-list''"

datatype load_error = SyntaxError | NotTodos

definition getInitialTodos :: "storage \<Rightarrow> load_error + Todo list" where
  "getInitialTodos localStorage =
     (case localStorage STORAGE_KEY of
        None \<Rightarrow> Inr []
      | Some fromStorage \<Rightarrow>
          if fromStorage \<noteq> [] then
            (case JSON_parse fromStorage of
               None \<Rightarrow> Inl SyntaxError
             | Some v \<Rightarrow> (case asTodos v of None \<Rightarrow> Inl NotTodos | Some ts \<Rightarrow> Inr ts))
          else Inr [])"

definition persistTodos :: "AppState \<Rightarrow> storage \<Rightarrow> storage" where
  "persistTodos st localStorage = localStorage(STORAGE_KEY \<mapsto> JSON_stringify (todos st))"

text \<open>The tokens and the parsed value of a serialized task.\<close>

definition todo_tokens :: "Todo \<Rightarrow> token list" where
  "todo_tokens t =
     [TLBrace, TString (str ''id''), TColon, TString (todo_id t), TComma,
      TString (str ''text''), TColon, TString (todo_text t), TComma,
      TString (str ''completed''), TColon, (if todo_completed t then TTrue else TFalse)] @
     (case todo_due t of
        DueUndefined \<Rightarrow> []
      | DueNull \<Rightarrow> [TComma, TString (str ''due''), TColon, TNull]
      | DueString s \<Rightarrow> [TComma, TString (str ''due''), TColon, TString s]) @
     [TRBrace]"

fun todos_tokens :: "Todo list \<Rightarrow> token list" where
  "todos_tokens [] = []"
| "todos_tokens [t] = todo_tokens t"
| "todos_tokens (t # u # us) = todo_tokens t @ [TComma] @ todos_tokens (u # us)"

definition todo_json :: "Todo \<Rightarrow> json" where
  "todo_json t =
     JObject
       ([(str ''id'', JString (todo_id t)), (str ''text'', JString (todo_text t)),
         (str ''completed'', JBool (todo_completed t))] @
        (case todo_due t of
           DueUndefined \<Rightarrow> []
         | DueNull \<Rightarrow> [(str ''due'', JNull)]
         | DueString s \<Rightarrow> [(str ''due'', JString s)]))"


section \<open>Properties\<close>

subsection \<open>Auxiliary facts\<close>

lemma getDueStatus_string:
  "s \<noteq> [] \<Longrightarrow> parseDate s = Some d \<Longrightarrow>
   getDueStatus parseDate now (DueString s) =
     (if now > d then Some Overdue
      else if d - now < 36 * 60 * 60 * 1000 then Some Soon
      else None)"
  by (simp add: getDueStatus_def)

lemma getDueStatus_missing:
  "getDueStatus parseDate now DueNull = None"
  "getDueStatus parseDate now DueUndefined = None"
  by (simp_all add: getDueStatus_def)

lemma sampleDates_02: "sampleDates due_1970_01_02 = Some 129600000"
  by (simp add: sampleDates_def due_1970_01_02_def due_1970_01_03_def str_def)

lemma sampleDates_03: "sampleDates due_1970_01_03 = Some 172800000"
  by (simp add: sampleDates_def due_1970_01_02_def due_1970_01_03_def str_def)

lemma sample_due_not_empty: "due_1970_01_02 \<noteq> []" "due_1970_01_03 \<noteq> []"
  by (simp_all add: due_1970_01_02_def due_1970_01_03_def str_def)

text \<open>The decimal numeral determines the number.\<close>

lemma decimal_value_digits: "decimal_value (digits n) = n"
proof (induction n rule: digits.induct)
  case (1 n)
  show ?case
  proof (cases "n < 10")
    case True
    then show ?thesis
      by (subst digits.simps) (simp add: decimal_value_def unat_of_nat)
  next
    case False
    with 1 have "decimal_value (digits (n div 10)) = n div 10"
      by simp
    with False show ?thesis
      by (subst digits.simps) (simp add: decimal_value_def unat_of_nat)
  qed
qed

lemma digits_inj: "digits m = digits n \<Longrightarrow> m = n"
  by (metis decimal_value_digits)

lemma digits_not_Nil: "digits n \<noteq> []"
  by (subst digits.simps) simp

lemma digit_not_minus:
  assumes "k < 10"
  shows "(0x30 + of_nat k :: 16 word) \<noteq> 0x2D"
proof
  assume e: "(0x30 + of_nat k :: 16 word) = 0x2D"
  have "unat (0x30 + of_nat k :: 16 word) = 48 + k"
    using assms by (simp add: unat_word_ariths unat_of_nat)
  moreover from e have "unat (0x30 + of_nat k :: 16 word) = unat (0x2D :: 16 word)"
    by (rule arg_cong)
  ultimately show False
    by simp
qed

lemma digits_no_minus: "0x2D \<notin> set (digits n)"
proof (induction n rule: digits.induct)
  case (1 n)
  show ?case
  proof (cases "n < 10")
    case True
    then show ?thesis
      using digit_not_minus [of n] by (subst digits.simps) auto
  next
    case False
    have "n mod 10 < 10"
      by simp
    from digit_not_minus [OF this] 1 False show ?thesis
      by (subst digits.simps) auto
  qed
qed

lemma toString_inj:
  assumes e: "toString a = toString b"
  shows "a = b"
proof -
  have no_sign: "hd (digits n) \<noteq> 0x2D" for n
    using digits_no_minus digits_not_Nil by (metis hd_in_set)
  show ?thesis
  proof (cases "a < 0"; cases "b < 0")
    assume neg: "a < 0" "b < 0"
    with e have "digits (nat (- a)) = digits (nat (- b))"
      by (simp add: toString_def)
    then have "nat (- a) = nat (- b)"
      by (rule digits_inj)
    with neg show ?thesis
      by simp
  next
    assume "a < 0" "\<not> b < 0"
    with e have "0x2D # digits (nat (- a)) = digits (nat b)"
      by (simp add: toString_def)
    then have "hd (digits (nat b)) = 0x2D"
      by (metis list.sel(1))
    with no_sign show ?thesis
      by simp
  next
    assume "\<not> a < 0" "b < 0"
    with e have "0x2D # digits (nat (- b)) = digits (nat a)"
      by (simp add: toString_def)
    then have "hd (digits (nat a)) = 0x2D"
      by (metis list.sel(1))
    with no_sign show ?thesis
      by simp
  next
    assume pos: "\<not> a < 0" "\<not> b < 0"
    with e have "digits (nat a) = digits (nat b)"
      by (simp add: toString_def)
    then have "nat a = nat b"
      by (rule digits_inj)
    with pos show ?thesis
      by simp
  qed
qed

text \<open>What each handler does to the list of ids.\<close>

lemma ids_handleToggle: "map todo_id (todos (handleToggle i st)) = map todo_id (todos st)"
  by (simp add: handleToggle_def comp_def if_distrib cong: if_cong)

lemma ids_handleEditSave: "map todo_id (todos (handleEditSave i st)) = map todo_id (todos st)"
  by (simp add: handleEditSave_def comp_def if_distrib cong: if_cong)

lemma ids_handleKeyDown: "map todo_id (todos (handleKeyDown key i st)) = map todo_id (todos st)"
  by (simp add: handleKeyDown_def Let_def ids_handleEditSave)

lemma ids_handleDelete:
  "map todo_id (todos (handleDelete i st)) = filter (\<lambda>j. j \<noteq> i) (map todo_id (todos st))"
  by (simp add: handleDelete_def filter_map comp_def)

lemma ids_handleAddTodo:
  "map todo_id (todos (handleAddTodo now st)) =
     map todo_id (todos st) @ (if trim (input st) = [] then [] else [toString now])"
  by (simp add: handleAddTodo_def)

lemma ids_step_other:
  "\<forall>now. e \<noteq> Submit now \<Longrightarrow> distinct (map todo_id (todos st)) \<Longrightarrow>
   distinct (map todo_id (todos (step e st))) \<and>
   set (map todo_id (todos (step e st))) \<subseteq> set (map todo_id (todos st))"
  by (cases e)
     (auto simp add: ids_handleToggle ids_handleEditSave ids_handleKeyDown ids_handleDelete
        handleEdit_def simp del: set_map)

lemma add_times_other:
  "\<forall>now. e \<noteq> Submit now \<Longrightarrow> add_times st (e # es) = add_times (step e st) es"
  by (cases e) simp_all

lemma run_distinct_ids:
  "distinct (map todo_id (todos st)) \<Longrightarrow> distinct (add_times st es) \<Longrightarrow>
   toString ` set (add_times st es) \<inter> set (map todo_id (todos st)) = {} \<Longrightarrow>
   distinct (map todo_id (todos (run st es)))"
proof (induction es arbitrary: st)
  case Nil
  then show ?case
    by simp
next
  case (Cons e es)
  show ?case
  proof (cases "\<exists>now. e = Submit now")
    case False
    then have ne: "\<forall>now. e \<noteq> Submit now"
      by simp
    note kept = ids_step_other [OF ne Cons.prems(1)]
    have t: "add_times st (e # es) = add_times (step e st) es"
      by (rule add_times_other [OF ne])
    have "distinct (map todo_id (todos (run (step e st) es)))"
    proof (rule Cons.IH)
      show "distinct (map todo_id (todos (step e st)))"
        using kept by simp
      show "distinct (add_times (step e st) es)"
        using Cons.prems(2) t by simp
      show "toString ` set (add_times (step e st) es) \<inter> set (map todo_id (todos (step e st))) = {}"
        using Cons.prems(3) kept unfolding t by blast
    qed
    then show ?thesis
      by simp
  next
    case True
    then obtain now where e: "e = Submit now"
      by blast
    let ?st = "handleAddTodo now st"
    let ?new = "if trim (input st) = [] then [] else [now]"
    have t: "add_times st (e # es) = ?new @ add_times ?st es"
      by (simp add: e)
    have i: "map todo_id (todos ?st) = map todo_id (todos st) @ map toString ?new"
      by (simp add: ids_handleAddTodo)
    have "distinct (map todo_id (todos (run ?st es)))"
    proof (rule Cons.IH)
      show "distinct (map todo_id (todos ?st))"
        using Cons.prems(1,3) unfolding t i by auto
      show "distinct (add_times ?st es)"
        using Cons.prems(2) unfolding t by simp
      show "toString ` set (add_times ?st es) \<inter> set (map todo_id (todos ?st)) = {}"
        using Cons.prems(2,3) unfolding t i by (auto dest: toString_inj)
    qed
    then show ?thesis
      by (simp add: e)
  qed
qed

lemma map_unknown_id:
  "i \<notin> todo_id ` set ts \<Longrightarrow> map (\<lambda>todo. if todo_id todo = i then f todo else todo) ts = ts"
  by (induction ts) auto

lemma filter_unknown_id:
  "i \<notin> todo_id ` set ts \<Longrightarrow> filter (\<lambda>todo. todo_id todo \<noteq> i) ts = ts"
  by (induction ts) auto

lemma filteredTodos_filter:
  "filteredTodos parseDate now st = filter (spec_selects parseDate now (filter_sel st)) (todos st)"
  by (cases "filter_sel st") (simp_all add: filteredTodos_def cong: filter_cong)

subsection \<open>The due-status classifier\<close>

text \<open>
  C1, as the code has it. For a due string \<open>s\<close> that is not empty and reads as the
  time value \<open>d\<close>, \<^verbatim>\<open>getDueStatus\<close> returns \<^verbatim>\<open>"overdue"\<close> iff \<open>now > d\<close>,
  \<^verbatim>\<open>"soon"\<close> iff \<open>d \<ge> now\<close> and \<open>d - now\<close> is below 36 hours, and \<^verbatim>\<open>null\<close>
  otherwise; for a \<^verbatim>\<open>null\<close> or missing due value it returns \<^verbatim>\<open>null\<close> as well.
\<close>

theorem getDueStatus_cases:
  assumes "parseDate s = Some d" and "s \<noteq> []"
  shows "(getDueStatus parseDate now (DueString s) = Some Overdue \<longleftrightarrow> now > d) \<and>
         (getDueStatus parseDate now (DueString s) = Some Soon \<longleftrightarrow>
            d \<ge> now \<and> d - now < 36 * 60 * 60 * 1000) \<and>
         (getDueStatus parseDate now (DueString s) = None \<longleftrightarrow>
            d \<ge> now \<and> \<not> d - now < 36 * 60 * 60 * 1000) \<and>
         getDueStatus parseDate now DueNull = None \<and>
         getDueStatus parseDate now DueUndefined = None"
  using assms by (auto simp add: getDueStatus_string getDueStatus_missing)

theorem getDueStatus_cases_witness:
  "sampleDates due_1970_01_02 = Some 129600000 \<and> due_1970_01_02 \<noteq> [] \<and>
   getDueStatus sampleDates 129600001 (DueString due_1970_01_02) = Some Overdue \<and>
   getDueStatus sampleDates 1 (DueString due_1970_01_02) = Some Soon \<and>
   getDueStatus sampleDates 0 (DueString due_1970_01_02) = None \<and>
   getDueStatus sampleDates 0 DueNull = None"
  using getDueStatus_cases [of sampleDates due_1970_01_02 129600000 129600001]
    getDueStatus_cases [of sampleDates due_1970_01_02 129600000 1]
    getDueStatus_cases [of sampleDates due_1970_01_02 129600000 0]
    sampleDates_02 sample_due_not_empty(1)
  by simp

text \<open>
  C1 as stated asks for four results, \<open>normal\<close> apart from \<open>none\<close>. At time 0 a task
  due 36 hours later is \<open>normal\<close> for the specification and a task with no due date is
  \<open>none\<close>, and \<^verbatim>\<open>getDueStatus\<close> returns the same value for both.
\<close>

theorem getDueStatus_normal_none_counterexample:
  "spec_classify (sampleDates due_1970_01_02) 0 = SpecNormal \<and>
   spec_classify None 0 = SpecNone \<and>
   SpecNormal \<noteq> SpecNone \<and>
   getDueStatus sampleDates 0 (DueString due_1970_01_02) = getDueStatus sampleDates 0 DueNull"
  using getDueStatus_string [of due_1970_01_02 sampleDates 129600000 0]
    sample_due_not_empty(1) sampleDates_02
  by (simp add: getDueStatus_missing)

text \<open>
  C9. For a due string that reads as the time value \<open>d\<close> with \<open>d - now\<close> at least
  36 hours and \<open>d \<ge> now\<close>, \<^verbatim>\<open>getDueStatus\<close> returns the value it returns for a
  \<^verbatim>\<open>null\<close> and for a missing due value.
\<close>

theorem getDueStatus_far_eq_missing:
  assumes "parseDate s = Some d" and "d - now \<ge> 36 * 60 * 60 * 1000" and "d \<ge> now"
  shows "getDueStatus parseDate now (DueString s) = getDueStatus parseDate now DueNull \<and>
         getDueStatus parseDate now (DueString s) = getDueStatus parseDate now DueUndefined"
  using assms by (simp add: getDueStatus_def)

theorem getDueStatus_far_eq_missing_witness:
  "sampleDates due_1970_01_03 = Some 172800000 \<and>
   (172800000 :: int) - 3600000 \<ge> 36 * 60 * 60 * 1000 \<and> (172800000 :: int) \<ge> 3600000 \<and>
   getDueStatus sampleDates 3600000 (DueString due_1970_01_03) =
     getDueStatus sampleDates 3600000 DueNull"
  using getDueStatus_far_eq_missing [of sampleDates due_1970_01_03 172800000 3600000]
    sampleDates_03
  by simp

subsection \<open>Filtering and the counts\<close>

text \<open>
  C2. For every collection and every filter selector, \<^verbatim>\<open>filteredTodos\<close> returns the
  tasks at the positions where the selector's predicate holds (\<open>all\<close>: every task;
  \<open>active\<close>: not completed; \<open>completed\<close>: completed; \<open>soon\<close>: not completed and
  classified \<^verbatim>\<open>"soon"\<close>), in the order of the collection: the result is a
  subsequence of the collection, and a task is in it iff it is in the collection and
  satisfies the predicate.
\<close>

theorem filteredTodos_selects:
  "filteredTodos parseDate now st =
     nths (todos st)
       {i. i < length (todos st) \<and> spec_selects parseDate now (filter_sel st) (todos st ! i)} \<and>
   subseq (filteredTodos parseDate now st) (todos st) \<and>
   (\<forall>t. t \<in> set (filteredTodos parseDate now st) \<longleftrightarrow>
          t \<in> set (todos st) \<and> spec_selects parseDate now (filter_sel st) t)"
proof (intro conjI)
  show "filteredTodos parseDate now st =
     nths (todos st)
       {i. i < length (todos st) \<and> spec_selects parseDate now (filter_sel st) (todos st ! i)}"
    unfolding filteredTodos_filter by (rule filter_eq_nths)
  show "subseq (filteredTodos parseDate now st) (todos st)"
    unfolding filteredTodos_filter by (rule subseq_filter_left)
  show "\<forall>t. t \<in> set (filteredTodos parseDate now st) \<longleftrightarrow>
          t \<in> set (todos st) \<and> spec_selects parseDate now (filter_sel st) t"
    unfolding filteredTodos_filter by simp
qed

text \<open>
  C3. For every collection and every filter category, the count passed to the
  category's button (\<^verbatim>\<open>todos.length\<close>, \<^verbatim>\<open>activeCount\<close>, \<^verbatim>\<open>completedCount\<close>,
  \<^verbatim>\<open>soonCount\<close>) is the length of the list \<^verbatim>\<open>filteredTodos\<close> returns when that
  category is selected, at the same reading of the clock.
\<close>

theorem filterButtonCount_eq_length:
  "filterButtonCount parseDate now st f =
     length (filteredTodos parseDate now (st\<lparr>filter_sel := f\<rparr>))"
  by (cases f) (simp_all add: filteredTodos_def activeCount_def completedCount_def soonCount_def)

text \<open>
  C8. For every collection, the count shown for \<open>all\<close> is the count shown for
  \<open>active\<close> plus the count shown for \<open>completed\<close>.
\<close>

theorem count_all_eq_active_plus_completed:
  "filterButtonCount parseDate now st FilterAll =
     filterButtonCount parseDate now st FilterActive +
     filterButtonCount parseDate now st FilterCompleted"
  using sum_length_filter_compl [of todo_completed "todos st"]
  by (simp add: activeCount_def completedCount_def)

subsection \<open>The operations on the collection\<close>

text \<open>
  C4 at a concrete input. The collection holds one task with id \<^verbatim>\<open>"1"\<close> and text
  \<^verbatim>\<open>"a"\<close>; the user begins to edit it, types \<^verbatim>\<open>" b "\<close> and leaves the input.
  \<^verbatim>\<open>handleEditSave\<close> stores \<^verbatim>\<open>" b "\<close> with its surrounding spaces and not the
  trimmed text \<^verbatim>\<open>"b"\<close>, and it leaves editing mode.
\<close>

theorem handleEditSave_keeps_whitespace:
  "todos (run (initState [\<lparr>todo_id = [0x31], todo_text = [0x61], todo_completed = False,
                           todo_due = DueNull\<rparr>])
            [BeginEdit [0x31] [0x61] DueNull, SetEditingText [0x20, 0x62, 0x20], Blur [0x31]])
     = [\<lparr>todo_id = [0x31], todo_text = [0x20, 0x62, 0x20], todo_completed = False,
         todo_due = DueNull\<rparr>] \<and>
   editingId (run (initState [\<lparr>todo_id = [0x31], todo_text = [0x61], todo_completed = False,
                           todo_due = DueNull\<rparr>])
            [BeginEdit [0x31] [0x61] DueNull, SetEditingText [0x20, 0x62, 0x20], Blur [0x31]])
     = None \<and>
   trim [0x20, 0x62, 0x20] = [0x62]"
  by (simp add: initState_def handleEdit_def handleEditSave_def trim_def isWhiteSpace_def)

text \<open>
  C5, as the code has it. The id of a new task is the decimal numeral of the clock
  reading at its submission. For every sequence of events starting from the empty
  collection in which the accepted submissions happen at pairwise different clock
  readings, no two tasks of the resulting collection share an id.
\<close>

theorem run_ids_distinct:
  assumes "distinct (add_times (initState []) es)"
  shows "distinct (map todo_id (todos (run (initState []) es)))"
  using assms by (intro run_distinct_ids) (simp_all add: initState_def)

theorem run_ids_distinct_witness:
  "distinct (add_times (initState [])
        [SetInput [0x61], Submit 5, SetInput [0x62], Submit 6, Toggle [0x35], Delete [0x36]]) \<and>
   distinct (map todo_id (todos (run (initState [])
        [SetInput [0x61], Submit 5, SetInput [0x62], Submit 6, Toggle [0x35], Delete [0x36]])))"
  using run_ids_distinct
    [of "[SetInput [0x61], Submit 5, SetInput [0x62], Submit 6, Toggle [0x35], Delete [0x36]]"]
  by (simp add: initState_def handleAddTodo_def trim_def isWhiteSpace_def)

text \<open>
  C5 as stated fails when two submissions read the same clock value: both tasks get
  the id \<^verbatim>\<open>"5"\<close>.
\<close>

theorem same_clock_duplicate_id_counterexample:
  "\<not> distinct (map todo_id (todos (run (initState [])
        [SetInput [0x61], Submit 5, SetInput [0x62], Submit 5])))"
  by (simp add: initState_def handleAddTodo_def trim_def isWhiteSpace_def toString_def
      digits.simps)

text \<open>
  C6. For every collection and every id that no task of it has, toggle, delete and
  edit-commit return the collection unchanged; the handlers are total functions, with
  no error result.
\<close>

theorem unknown_id_unchanged:
  assumes "i \<notin> todo_id ` set (todos st)"
  shows "todos (handleToggle i st) = todos st \<and>
         todos (handleDelete i st) = todos st \<and>
         todos (handleEditSave i st) = todos st"
  using assms
  by (simp add: handleToggle_def handleDelete_def handleEditSave_def map_unknown_id
      filter_unknown_id)

theorem unknown_id_unchanged_witness:
  "[0x32] \<notin> todo_id ` set (todos (initState [\<lparr>todo_id = [0x31], todo_text = [0x61],
       todo_completed = False, todo_due = DueNull\<rparr>])) \<and>
   todos (handleToggle [0x32] (initState [\<lparr>todo_id = [0x31], todo_text = [0x61],
       todo_completed = False, todo_due = DueNull\<rparr>])) =
     [\<lparr>todo_id = [0x31], todo_text = [0x61], todo_completed = False, todo_due = DueNull\<rparr>] \<and>
   todos (handleDelete [0x32] (initState [\<lparr>todo_id = [0x31], todo_text = [0x61],
       todo_completed = False, todo_due = DueNull\<rparr>])) =
     [\<lparr>todo_id = [0x31], todo_text = [0x61], todo_completed = False, todo_due = DueNull\<rparr>] \<and>
   todos (handleEditSave [0x32] (initState [\<lparr>todo_id = [0x31], todo_text = [0x61],
       todo_completed = False, todo_due = DueNull\<rparr>])) =
     [\<lparr>todo_id = [0x31], todo_text = [0x61], todo_completed = False, todo_due = DueNull\<rparr>]"
  using unknown_id_unchanged [of "[0x32]" "initState [\<lparr>todo_id = [0x31], todo_text = [0x61],
       todo_completed = False, todo_due = DueNull\<rparr>]"]
  by (simp add: initState_def)

text \<open>
  C10. \<^verbatim>\<open>handleEditSave\<close> has no emptiness check: for every collection with a task of
  the given id at position \<open>k\<close> and every edited text that is empty or whitespace
  only, committing the edit stores that text as the text of the task. \<^verbatim>\<open>handleAddTodo\<close>
  with the same text in its input leaves the collection unchanged.
\<close>

theorem handleEditSave_stores_blank:
  assumes "trim txt = []" and "k < length (todos st)" and "todo_id (todos st ! k) = i"
  shows "length (todos (handleEditSave i (st\<lparr>editingText := txt\<rparr>))) = length (todos st) \<and>
         todo_id (todos (handleEditSave i (st\<lparr>editingText := txt\<rparr>)) ! k) = i \<and>
         todo_text (todos (handleEditSave i (st\<lparr>editingText := txt\<rparr>)) ! k) = txt \<and>
         todos (handleAddTodo now (st\<lparr>input := txt\<rparr>)) = todos st"
  using assms by (simp add: handleEditSave_def handleAddTodo_def)

theorem handleEditSave_stores_blank_witness:
  "trim [0x20, 0x09] = [] \<and>
   todo_id (todos (initState [\<lparr>todo_id = [0x31], todo_text = [0x61], todo_completed = False,
       todo_due = DueNull\<rparr>]) ! 0) = [0x31] \<and>
   todo_text (todos (handleEditSave [0x31] ((initState [\<lparr>todo_id = [0x31], todo_text = [0x61],
       todo_completed = False, todo_due = DueNull\<rparr>])\<lparr>editingText := [0x20, 0x09]\<rparr>)) ! 0) =
     [0x20, 0x09] \<and>
   todos (handleAddTodo 7 ((initState [\<lparr>todo_id = [0x31], todo_text = [0x61],
       todo_completed = False, todo_due = DueNull\<rparr>])\<lparr>input := [0x20, 0x09]\<rparr>)) =
     [\<lparr>todo_id = [0x31], todo_text = [0x61], todo_completed = False, todo_due = DueNull\<rparr>]"
  using handleEditSave_stores_blank [of "[0x20, 0x09]" 0 "initState [\<lparr>todo_id = [0x31],
       todo_text = [0x61], todo_completed = False, todo_due = DueNull\<rparr>]" "[0x31]" 7]
  by (simp add: initState_def trim_def isWhiteSpace_def)

subsection \<open>The persisted collection\<close>

text \<open>The stored text of a collection of two tasks.\<close>

lemma JSON_stringify_sample:
  \<open>JSON_stringify
     [\<lparr>todo_id = str ''5'', todo_text = str ''Buy milk'', todo_completed = False,
       todo_due = DueNull\<rparr>,
      \<lparr>todo_id = str ''6'', todo_text = str ''b'', todo_completed = True,
       todo_due = DueString (str ''1970-01-02T12:00'')\<rparr>] =
   str ''[{"id":"5","text":"Buy milk","completed":false,"due":null},{"id":"6","text":"b","completed":true,"due":"1970-01-02T12:00"}]''\<close>
  by (simp add: JSON_stringify_def SerializeTodo_def QuoteJSONString_def str_def quote_unit_def
      isLeadingSurrogate_def isTrailingSurrogate_def UnicodeEscape_def hex_digit_def)

lemma below_16: "n < 16 \<Longrightarrow> n \<in> {0, 1, 2, 3, 4, 5, 6, 7, 8, 9, 10, 11, 12, 13, 14, 15::nat}"
  by simp arith

lemma hex_value_hex_digit: "n < 16 \<Longrightarrow> hex_value (hex_digit n) = Some n"
proof -
  assume "n < 16"
  then have "n \<in> {0, 1, 2, 3, 4, 5, 6, 7, 8, 9, 10, 11, 12, 13, 14, 15}"
    by (rule below_16)
  then show ?thesis
    by (elim insertE emptyE) (simp_all add: hex_digit_def hex_value_def)
qed


lemma nibbles:
  "4096 * (n div 4096) + 256 * (n div 256 mod 16) + 16 * (n div 16 mod 16) + n mod 16 = (n::nat)"
proof -
  have a: "n = 16 * (n div 16) + n mod 16"
    by simp
  have b: "n div 16 = 16 * (n div 16 div 16) + n div 16 mod 16"
    by simp
  have b': "n div 16 div 16 = n div 256"
    by (simp add: div_mult2_eq)
  have c: "n div 256 = 16 * (n div 256 div 16) + n div 256 mod 16"
    by simp
  have c': "n div 256 div 16 = n div 4096"
    by (simp add: div_mult2_eq)
  show ?thesis
    using a b c unfolding b' c' by linarith
qed

lemma hex4_UnicodeEscape:
  "hex4 (hex_digit (unat c div 4096)) (hex_digit (unat c div 256 mod 16))
        (hex_digit (unat c div 16 mod 16)) (hex_digit (unat c mod 16)) = Some c"
proof -
  have "unat c < 65536"
    using unsigned_less [of c, where 'a = nat] by simp
  then have a: "unat c div 4096 < 16"
    by (simp add: less_mult_imp_div_less)
  show ?thesis
    by (simp add: hex4_def hex_value_hex_digit a nibbles)
qed

lemma lex_string_UnicodeEscape:
  "lex_string (UnicodeEscape c @ r) = prepend c (lex_string r)"
  by (simp add: UnicodeEscape_def Let_def hex4_UnicodeEscape)

lemma lex_string_raw:
  "c \<noteq> 0x22 \<Longrightarrow> c \<noteq> 0x5C \<Longrightarrow> \<not> c < 0x20 \<Longrightarrow> lex_string (c # r) = prepend c (lex_string r)"
  by simp

lemma lex_string_quote_unit:
  "lex_string (quote_unit c @ r) = prepend c (lex_string r)"
  by (simp add: quote_unit_def lex_string_UnicodeEscape unescape_def)

lemma surrogate_raw:
  assumes "isLeadingSurrogate c \<or> isTrailingSurrogate c"
  shows "c \<noteq> 0x22" "c \<noteq> 0x5C" "\<not> c < 0x20"
  using assms
  by (auto simp add: isLeadingSurrogate_def isTrailingSurrogate_def word_le_nat_alt word_less_nat_alt)

lemma lex_string_quote_units:
  "lex_string (quote_units s @ 0x22 # rest) = Some (s, rest)"
proof (induction s rule: quote_units.induct)
  case 1
  show ?case by simp
next
  case (2 c)
  show ?case
    by (simp add: lex_string_UnicodeEscape lex_string_quote_unit prepend_def)
next
  case (3 c d cs)
  show ?case
  proof (cases "isLeadingSurrogate c")
    case True
    note lead = surrogate_raw [of c, OF disjI1, OF True]
    show ?thesis
    proof (cases "isTrailingSurrogate d")
      case t: True
      note trail = surrogate_raw [of d, OF disjI2, OF t]
      have "lex_string (c # d # quote_units cs @ 0x22 # rest) =
              prepend c (prepend d (lex_string (quote_units cs @ 0x22 # rest)))"
        by (simp add: lead trail)
      with 3(1) [OF True t] True t show ?thesis
        by (simp add: prepend_def)
    next
      case f: False
      with 3(2) [OF True f] True show ?thesis
        by (simp add: lex_string_UnicodeEscape prepend_def)
    qed
  next
    case False
    show ?thesis
    proof (cases "isTrailingSurrogate c")
      case t: True
      with 3(3) [OF False t] False show ?thesis
        by (simp add: lex_string_UnicodeEscape prepend_def)
    next
      case f: False
      with 3(4) [OF False f] False show ?thesis
        by (simp add: lex_string_quote_unit prepend_def)
    qed
  qed
qed


lemma lex_QuoteJSONString:
  "lex (QuoteJSONString s @ rest) = map_option (Cons (TString s)) (lex rest)"
  by (simp add: QuoteJSONString_def lex.simps lex_string_quote_units)

lemma lex_punct:
  "lex (0x7B # cs) = map_option (Cons TLBrace) (lex cs)"
  "lex (0x7D # cs) = map_option (Cons TRBrace) (lex cs)"
  "lex (0x5B # cs) = map_option (Cons TLBracket) (lex cs)"
  "lex (0x5D # cs) = map_option (Cons TRBracket) (lex cs)"
  "lex (0x3A # cs) = map_option (Cons TColon) (lex cs)"
  "lex (0x2C # cs) = map_option (Cons TComma) (lex cs)"
  by (simp_all add: lex.simps)

lemma lex_literal:
  "lex (str ''true'' @ cs) = map_option (Cons TTrue) (lex cs)"
  "lex (str ''false'' @ cs) = map_option (Cons TFalse) (lex cs)"
  "lex (str ''null'' @ cs) = map_option (Cons TNull) (lex cs)"
  by (simp_all add: lex.simps str_def lex_word_def)

lemma lex_SerializeTodo:
  "lex (SerializeTodo t @ rest) = map_option (append (todo_tokens t)) (lex rest)"
  by (cases "lex rest"; cases "todo_due t")
     (simp_all add: SerializeTodo_def todo_tokens_def lex_punct lex_literal lex_QuoteJSONString)

lemma lex_join_comma:
  "lex (join_comma (map SerializeTodo ts) @ rest) = map_option (append (todos_tokens ts)) (lex rest)"
proof (induction ts rule: todos_tokens.induct)
  case 1
  show ?case by (simp add: option.map_ident)
next
  case (2 t)
  show ?case by (simp add: lex_SerializeTodo)
next
  case (3 t u us)
  then show ?case
    by (cases "lex rest") (simp_all add: lex_SerializeTodo lex_punct)
qed

lemma lex_JSON_stringify:
  "lex (JSON_stringify ts) = Some (TLBracket # todos_tokens ts @ [TRBracket])"
  by (simp add: JSON_stringify_def lex_punct lex_join_comma lex.simps)

lemma parse_tokens_append:
  "parse_tokens ps (a @ b) =
     (case parse_tokens ps a of None \<Rightarrow> None | Some ps' \<Rightarrow> parse_tokens ps' b)"
  by (induction a arbitrary: ps) (simp_all split: option.splits)

lemma parse_todo_tokens:
  "expects_value e \<Longrightarrow>
   parse_tokens (Parsing (InArray vs # st) e) (todo_tokens t) =
     Some (Parsing (InArray (vs @ [todo_json t]) # st) CommaOrClose)"
  by (cases "todo_due t"; cases "todo_completed t")
     (simp_all add: todo_tokens_def todo_json_def)

lemma parse_todos_tokens:
  "ts \<noteq> [] \<Longrightarrow> expects_value e \<Longrightarrow>
   parse_tokens (Parsing (InArray vs # st) e) (todos_tokens ts) =
     Some (Parsing (InArray (vs @ map todo_json ts) # st) CommaOrClose)"
proof (induction ts arbitrary: vs e rule: todos_tokens.induct)
  case 1
  then show ?case by simp
next
  case (2 t)
  then show ?case by (simp add: parse_todo_tokens)
next
  case (3 t u us)
  have "parse_tokens (Parsing (InArray (vs @ [todo_json t]) # st) Value) (todos_tokens (u # us)) =
          Some (Parsing (InArray ((vs @ [todo_json t]) @ map todo_json (u # us)) # st) CommaOrClose)"
    by (rule 3(1)) simp_all
  with 3(3) show ?case
    by (simp add: parse_tokens_append parse_todo_tokens)
qed

lemma parse_all_tokens:
  "parse_tokens (Parsing [] Value) (TLBracket # todos_tokens ts @ [TRBracket]) =
     Some (Finished (JArray (map todo_json ts)))"
proof (cases "ts = []")
  case True
  then show ?thesis by simp
next
  case False
  then show ?thesis
    using parse_todos_tokens [of ts ValueOrClose "[]" "[]"]
    by (simp add: parse_tokens_append)
qed

lemma JSON_parse_stringify: "JSON_parse (JSON_stringify ts) = Some (JArray (map todo_json ts))"
  by (simp add: JSON_parse_def lex_JSON_stringify parse_all_tokens del: parse_tokens.simps)

lemma asTodo_todo_json: "asTodo (todo_json t) = Some t"
  by (cases "todo_due t") (simp_all add: todo_json_def property_def str_def)

lemma asTodos_todo_json: "asTodos (JArray (map todo_json ts)) = Some ts"
  by (induction ts) (simp_all add: asTodo_todo_json)

lemma JSON_stringify_not_empty: "JSON_stringify ts \<noteq> []"
  by (simp add: JSON_stringify_def)

text \<open>
  C7. For every collection, the collection read by \<^verbatim>\<open>getInitialTodos\<close> from the
  storage that \<^verbatim>\<open>persistTodos\<close> has written is the collection itself: the same
  tasks in the same order, with the same id, text, completed and due fields.
\<close>

theorem getInitialTodos_persistTodos:
  "getInitialTodos (persistTodos st localStorage) = Inr (todos st)"
  by (simp add: getInitialTodos_def persistTodos_def JSON_stringify_not_empty
      JSON_parse_stringify asTodos_todo_json del: asTodos.simps)

end
